theory Spec2Isabelle
  imports Main
begin

section \<open>The wire type: dynamodb.AttributeValue\<close>

text \<open>
  The attribute value of the DynamoDB client is a Go struct with ten fields, each a pointer,
  a slice or a map, so each can be absent (\<open>nil\<close>).  The codec tells \<open>nil\<close> from empty
  (\<open>elem.B == nil\<close>, \<open>av.NULL != nil\<close>, \<open>len(av.L) != 0\<close>), so every field is an
  option.  The elements of \<open>L\<close>, \<open>M\<close>, \<open>NS\<close> and \<open>SS\<close> are pointers and may be \<open>nil\<close>
  themselves.  A byte is a natural number below 256.  The Go map \<open>M\<close> is an association
  list; the iteration order of a Go map, which the language leaves open, is the order of
  the list.
\<close>

datatype av = AV
  (B: "nat list option")
  (BOOL: "bool option")
  (BS: "nat list list option")
  (L: "av option list option")
  (M: "(string \<times> av option) list option")
  (N: "string option")
  (NS: "string option list option")
  (NULL: "bool option")
  (S: "string option")
  (SS: "string option list option")

definition emptyAV :: av where
  "emptyAV = AV None None None None None None None None None None"

fun setB :: "nat list option \<Rightarrow> av \<Rightarrow> av" where
  "setB x (AV b bo bs l m n ns nu s ss) = AV x bo bs l m n ns nu s ss"

fun setBOOL :: "bool option \<Rightarrow> av \<Rightarrow> av" where
  "setBOOL x (AV b bo bs l m n ns nu s ss) = AV b x bs l m n ns nu s ss"

fun setBS :: "nat list list option \<Rightarrow> av \<Rightarrow> av" where
  "setBS x (AV b bo bs l m n ns nu s ss) = AV b bo x l m n ns nu s ss"

fun setL :: "av option list option \<Rightarrow> av \<Rightarrow> av" where
  "setL x (AV b bo bs l m n ns nu s ss) = AV b bo bs x m n ns nu s ss"

fun setM :: "(string \<times> av option) list option \<Rightarrow> av \<Rightarrow> av" where
  "setM x (AV b bo bs l m n ns nu s ss) = AV b bo bs l x n ns nu s ss"

fun setN :: "string option \<Rightarrow> av \<Rightarrow> av" where
  "setN x (AV b bo bs l m n ns nu s ss) = AV b bo bs l m x ns nu s ss"

fun setNS :: "string option list option \<Rightarrow> av \<Rightarrow> av" where
  "setNS x (AV b bo bs l m n ns nu s ss) = AV b bo bs l m n x nu s ss"

fun setS :: "string option \<Rightarrow> av \<Rightarrow> av" where
  "setS x (AV b bo bs l m n ns nu s ss) = AV b bo bs l m n ns nu x ss"

fun setSS :: "string option list option \<Rightarrow> av \<Rightarrow> av" where
  "setSS x (AV b bo bs l m n ns nu s ss) = AV b bo bs l m n ns nu s x"

text \<open>\<open>encodeNull\<close> overwrites the whole value: \<open>*av = dynamodb.AttributeValue{NULL: &t}\<close>.\<close>

definition encodeNull :: av where
  "encodeNull = AV None None None None None None None (Some True) None None"

text \<open>\<open>len\<close> of a slice or map field that may be \<open>nil\<close>.\<close>

fun len :: "'a list option \<Rightarrow> nat" where
  "len None = 0"
| "len (Some xs) = length xs"

section \<open>Native values as reflection sees them\<close>

text \<open>
  A \<open>reflect.Value\<close> carries its static type.  The codec looks at the kind, at the name of
  the type (\<open>v.Type().Name()\<close>, empty for an unnamed type; the type switches
  \<open>case bool\<close>, \<open>case []byte\<close>, \<open>case int\<close> only match the unnamed predeclared types), at
  \<open>nil\<close>, and at the element types of pointers, slices and maps when it allocates.
  The platform is taken to be a 64-bit one: \<open>int\<close>, \<open>uint\<close> and \<open>uintptr\<close> have 64 bits.
  A float is its IEEE bit pattern (\<open>math.Float64bits\<close>, \<open>math.Float32bits\<close>); a complex
  number, a channel, a function and an unsafe pointer are opaque tokens.
  A slice is modelled by its elements, its capacity taken equal to its length;
  pointers own what they point to (no two pointers alias).
\<close>

datatype ikind = KInt | KInt8 | KInt16 | KInt32 | KInt64
datatype ukind = KUint | KUint8 | KUint16 | KUint32 | KUint64 | KUintptr
datatype fkind = KFloat32 | KFloat64
datatype ckind = KComplex64 | KComplex128
datatype okind = KChan | KFunc | KUnsafePointer

text \<open>
  The tag of a struct field (\<open>tag.go\<close>, whose declaration is not among the sources; the
  flags are those the codec reads) and the resolved field (\<open>field.go\<close>: the tag and the
  wire name).
\<close>

record tag =
  OmitEmpty :: bool
  OmitEmptyElem :: bool
  AsString :: bool
  AsBinSet :: bool
  AsNumSet :: bool
  AsStrSet :: bool

record field = tag +
  Name :: string

definition tag0 :: tag where
  "tag0 = \<lparr>OmitEmpty = False, OmitEmptyElem = False, AsString = False,
           AsBinSet = False, AsNumSet = False, AsStrSet = False\<rparr>"

definition tagOf :: "field \<Rightarrow> tag" where
  "tagOf f = \<lparr>OmitEmpty = OmitEmpty f, OmitEmptyElem = OmitEmptyElem f, AsString = AsString f,
           AsBinSet = AsBinSet f, AsNumSet = AsNumSet f, AsStrSet = AsStrSet f\<rparr>"

datatype gtype =
    TBool string
  | TString string
  | TInt string ikind
  | TUint string ukind
  | TFloat string fkind
  | TComplex string ckind
  | TOpaque string okind
  | TPtr gtype
  | TInterface
  | TSlice string gtype
  | TArray string nat gtype
  | TMap string gtype gtype
  | TStruct string "(field \<times> gtype) list"

text \<open>
  A struct value lists the fields \<open>unionStructFields\<close> resolves for its type (the resolver
  is not among the sources), each with the value \<open>v.FieldByIndex(f.Index)\<close> reads.
\<close>

datatype val =
    VBool string bool
  | VString string string
  | VInt string ikind int
  | VUint string ukind nat
  | VFloat string fkind nat
  | VComplex string ckind nat
  | VOpaque string okind nat
  | VPtr gtype "val option"
  | VIface "val option"
  | VSlice string gtype "val list option"
  | VArray string gtype "val list"
  | VMap string gtype gtype "(val \<times> val) list option"
  | VStruct string "(field \<times> val) list"

fun tyname :: "gtype \<Rightarrow> string" where
  "tyname (TBool n) = n"
| "tyname (TString n) = n"
| "tyname (TInt n k) = n"
| "tyname (TUint n k) = n"
| "tyname (TFloat n k) = n"
| "tyname (TComplex n k) = n"
| "tyname (TOpaque n k) = n"
| "tyname (TPtr t) = []"
| "tyname TInterface = []"
| "tyname (TSlice n t) = n"
| "tyname (TArray n k t) = n"
| "tyname (TMap n kt et) = n"
| "tyname (TStruct n fs) = n"

fun typeOf :: "val \<Rightarrow> gtype"
  and typeOfFields :: "(field \<times> val) list \<Rightarrow> (field \<times> gtype) list" where
  "typeOf (VBool n b) = TBool n"
| "typeOf (VString n s) = TString n"
| "typeOf (VInt n k i) = TInt n k"
| "typeOf (VUint n k u) = TUint n k"
| "typeOf (VFloat n k x) = TFloat n k"
| "typeOf (VComplex n k x) = TComplex n k"
| "typeOf (VOpaque n k x) = TOpaque n k"
| "typeOf (VPtr t po) = TPtr t"
| "typeOf (VIface xo) = TInterface"
| "typeOf (VSlice n t xs) = TSlice n t"
| "typeOf (VArray n t xs) = TArray n (length xs) t"
| "typeOf (VMap n kt et m) = TMap n kt et"
| "typeOf (VStruct n fs) = TStruct n (typeOfFields fs)"
| "typeOfFields [] = []"
| "typeOfFields (fv # fs) = (fst fv, typeOf (snd fv)) # typeOfFields fs"

definition tname :: "val \<Rightarrow> string" where
  "tname v = tyname (typeOf v)"

text \<open>\<open>reflect.Zero\<close>: the zero value of a type.\<close>

fun zero :: "gtype \<Rightarrow> val"
  and zeroFields :: "(field \<times> gtype) list \<Rightarrow> (field \<times> val) list" where
  "zero (TBool n) = VBool n False"
| "zero (TString n) = VString n []"
| "zero (TInt n k) = VInt n k 0"
| "zero (TUint n k) = VUint n k 0"
| "zero (TFloat n k) = VFloat n k 0"
| "zero (TComplex n k) = VComplex n k 0"
| "zero (TOpaque n k) = VOpaque n k 0"
| "zero (TPtr t) = VPtr t None"
| "zero TInterface = VIface None"
| "zero (TSlice n t) = VSlice n t None"
| "zero (TArray n k t) = VArray n t (replicate k (zero t))"
| "zero (TMap n kt et) = VMap n kt et None"
| "zero (TStruct n fs) = VStruct n (zeroFields fs)"
| "zeroFields [] = []"
| "zeroFields (ft # fs) = (fst ft, zero (snd ft)) # zeroFields fs"

fun isPtr :: "val \<Rightarrow> bool" where
  "isPtr (VPtr t po) = True"
| "isPtr v = False"

section \<open>Errors\<close>

text \<open>
  The error values of the package, the two errors of \<open>strconv\<close>, an error a user's hook
  returns, and a panic of the runtime (the codec recovers from none).
\<close>

datatype numerr = ErrSyntax | ErrRange

datatype error =
    InvalidUnmarshalError
  | UnmarshalTypeError string gtype
  | InvalidMarshalError string
  | unsupportedMarshalTypeError gtype
  | NumError numerr
  | HookError string
  | Panic string

section \<open>The standard library: strconv\<close>

text \<open>
  \<open>strconv.ParseUint(s, 10, 64)\<close>, \<open>strconv.ParseInt(s, 10, 64)\<close>, \<open>strconv.FormatUint\<close>
  and \<open>strconv.FormatInt\<close> in base 10, as the Go library documents and implements them:
  \<open>ParseUint\<close> accepts no sign, reads digit by digit and stops at the first byte that is
  no digit (a syntax error) or at the digit that takes the value past \<open>1<<64 - 1\<close> (a
  range error); \<open>ParseInt\<close> strips one sign, parses the rest as unsigned and checks the
  result against \<open>1<<63\<close>.
\<close>

definition isDigit :: "char \<Rightarrow> bool" where
  "isDigit c = (48 \<le> (of_char c :: nat) \<and> (of_char c :: nat) \<le> 57)"

definition digitVal :: "char \<Rightarrow> nat" where
  "digitVal c = of_char c - 48"

fun parseDigits :: "nat \<Rightarrow> string \<Rightarrow> numerr + nat" where
  "parseDigits n [] = Inr n"
| "parseDigits n (c # cs) =
     (if \<not> isDigit c then Inl ErrSyntax
      else if n * 10 \<ge> 2 ^ 64 then Inl ErrRange
      else if n * 10 + digitVal c \<ge> 2 ^ 64 then Inl ErrRange
      else parseDigits (n * 10 + digitVal c) cs)"

definition ParseUint :: "string \<Rightarrow> numerr + nat" where
  "ParseUint s = (if s = [] then Inl ErrSyntax else parseDigits 0 s)"

definition ParseInt :: "string \<Rightarrow> numerr + int" where
  "ParseInt s0 =
     (if s0 = [] then Inl ErrSyntax
      else let neg = (hd s0 = CHR ''-'');
               s = (if hd s0 = CHR ''+'' \<or> hd s0 = CHR ''-'' then tl s0 else s0)
           in case ParseUint s of
                Inl ErrSyntax \<Rightarrow> Inl ErrSyntax
              | Inl ErrRange \<Rightarrow> Inl ErrRange
              | Inr un \<Rightarrow>
                  if \<not> neg \<and> un \<ge> 2 ^ 63 then Inl ErrRange
                  else if neg \<and> un > 2 ^ 63 then Inl ErrRange
                  else Inr (if neg then - int un else int un))"

definition digitChar :: "nat \<Rightarrow> char" where
  "digitChar d = ''0123456789'' ! d"

function FormatUint :: "nat \<Rightarrow> string" where
  "FormatUint u = (if u < 10 then [digitChar u] else FormatUint (u div 10) @ [digitChar (u mod 10)])"
  by pat_completeness auto
termination
  by (relation "measure id") auto

declare FormatUint.simps [simp del]

definition FormatInt :: "int \<Rightarrow> string" where
  "FormatInt i = (if i < 0 then CHR ''-'' # FormatUint (nat (- i)) else FormatUint (nat i))"

definition encodeInt :: "int \<Rightarrow> string" where
  "encodeInt i = FormatInt i"

definition encodeUint :: "nat \<Rightarrow> string" where
  "encodeUint u = FormatUint u"

section \<open>What the codec takes from outside\<close>

text \<open>
  The floating-point routines of the library are parameters: \<open>strconv.ParseFloat(s, 64)\<close>,
  \<open>strconv.FormatFloat(f, 'f', -1, 64)\<close> and the two conversions \<open>float32(x)\<close> and
  \<open>float64(x)\<close>, all on bit patterns.  So is \<open>fmt.Sprint\<close> on a map key that is no plain
  string.  The extension hooks are methods of the user's named types: the environment maps
  a type name to its \<open>MarshalDynamoDBAttributeValue\<close> (with the receiver it is declared
  on) and to its \<open>UnmarshalDynamoDBAttributeValue\<close>.  A marshal hook fills a fresh
  attribute value or returns an error; an unmarshal hook gets the attribute value and
  the value its receiver points to and returns an error, or none, and the new value.
\<close>

datatype recv = ByValue | ByPointer

record env =
  ParseFloat :: "string \<Rightarrow> numerr + nat"
  FormatFloat :: "nat \<Rightarrow> string"
  toFloat32 :: "nat \<Rightarrow> nat"
  toFloat64 :: "nat \<Rightarrow> nat"
  Sprint :: "val \<Rightarrow> string"
  Marshaler :: "string \<Rightarrow> (recv \<times> (val \<Rightarrow> error + av)) option"
  Unmarshaler :: "string \<Rightarrow> (av option \<Rightarrow> val \<Rightarrow> error option \<times> val) option"

definition encodeFloat :: "env \<Rightarrow> nat \<Rightarrow> string" where
  "encodeFloat env f = FormatFloat env f"

text \<open>The encoder's configuration (\<open>SupportJSONTags\<close> is read by the field resolver only).\<close>

record Encoder =
  NullEmptyString :: bool

section \<open>Decoding numbers\<close>

text \<open>
  \<open>reflect.Value.OverflowInt\<close>, \<open>OverflowUint\<close> and \<open>OverflowFloat\<close>: whether a 64-bit value
  fits the kind of the target.  A positive float64 is ordered as its bit pattern is, so
  \<open>math.MaxFloat32 < |x| \<and> |x| <= math.MaxFloat64\<close> is a comparison of patterns with the
  sign bit cleared.
\<close>

fun ibits :: "ikind \<Rightarrow> nat" where
  "ibits KInt = 64"
| "ibits KInt8 = 8"
| "ibits KInt16 = 16"
| "ibits KInt32 = 32"
| "ibits KInt64 = 64"

fun ubits :: "ukind \<Rightarrow> nat" where
  "ubits KUint = 64"
| "ubits KUint8 = 8"
| "ubits KUint16 = 16"
| "ubits KUint32 = 32"
| "ubits KUint64 = 64"
| "ubits KUintptr = 64"

definition OverflowInt :: "ikind \<Rightarrow> int \<Rightarrow> bool" where
  "OverflowInt k x = (x < - (2 ^ (ibits k - 1)) \<or> 2 ^ (ibits k - 1) \<le> x)"

definition OverflowUint :: "ukind \<Rightarrow> nat \<Rightarrow> bool" where
  "OverflowUint k x = (2 ^ ubits k \<le> x)"

definition OverflowFloat :: "fkind \<Rightarrow> nat \<Rightarrow> bool" where
  "OverflowFloat k x =
     (case k of
        KFloat32 \<Rightarrow> 0x47EFFFFFE0000000 < x mod 2 ^ 63 \<and> x mod 2 ^ 63 \<le> 0x7FEFFFFFFFFFFFFF
      | KFloat64 \<Rightarrow> False)"

text \<open>
  \<open>decodeNumberToInterface\<close>: the three parses in turn.  \<open>int(i)\<close> and \<open>uint(u)\<close> keep the
  value on a 64-bit platform.  The float parse is returned as it is, error and all.
\<close>

definition decodeNumberToInterface :: "env \<Rightarrow> string \<Rightarrow> error + val" where
  "decodeNumberToInterface env n =
     (case ParseInt n of
        Inr i \<Rightarrow> Inr (VInt [] KInt i)
      | Inl _ \<Rightarrow>
          (case ParseUint n of
             Inr u \<Rightarrow> Inr (VUint [] KUint u)
           | Inl _ \<Rightarrow>
               (case ParseFloat env n of
                  Inr f \<Rightarrow> Inr (VFloat [] KFloat64 f)
                | Inl e \<Rightarrow> Inl (NumError e))))"

text \<open>
  \<open>decodeNumber\<close> returns the error, if any, and the target as it is afterwards.  The
  pointer \<open>n\<close> is dereferenced before the kind is looked at in every branch but the
  default one; a \<open>nil\<close> element of a number set panics there.  In the three numeric
  branches the source returns \<open>err\<close> when the parse failed or the value overflows.
\<close>

definition nilDeref :: error where
  "nilDeref = Panic ''invalid memory address or nil pointer dereference''"

definition decodeNumber :: "env \<Rightarrow> string option \<Rightarrow> val \<Rightarrow> error option \<times> val" where
  "decodeNumber env n v =
     (case v of
        VIface xo \<Rightarrow>
          (case n of None \<Rightarrow> (Some nilDeref, v)
           | Some s \<Rightarrow>
               (case decodeNumberToInterface env s of
                  Inl err \<Rightarrow> (Some err, v)
                | Inr i \<Rightarrow> (None, VIface (Some i))))
      | VInt tn k old \<Rightarrow>
          (case n of None \<Rightarrow> (Some nilDeref, v)
           | Some s \<Rightarrow>
               (case ParseInt s of
                  Inl e \<Rightarrow> (Some (NumError e), v)
                | Inr i \<Rightarrow> if OverflowInt k i then (None, v) else (None, VInt tn k i)))
      | VUint tn k old \<Rightarrow>
          (case n of None \<Rightarrow> (Some nilDeref, v)
           | Some s \<Rightarrow>
               (case ParseUint s of
                  Inl e \<Rightarrow> (Some (NumError e), v)
                | Inr i \<Rightarrow> if OverflowUint k i then (None, v) else (None, VUint tn k i)))
      | VFloat tn k old \<Rightarrow>
          (case n of None \<Rightarrow> (Some nilDeref, v)
           | Some s \<Rightarrow>
               (case ParseFloat env s of
                  Inl e \<Rightarrow> (Some (NumError e), v)
                | Inr i \<Rightarrow>
                    if OverflowFloat k i then (None, v)
                    else (None, VFloat tn k (case k of KFloat32 \<Rightarrow> toFloat32 env i | KFloat64 \<Rightarrow> i))))
      | _ \<Rightarrow> (Some (UnmarshalTypeError ''number'' (typeOf v)), v))"

section \<open>The encoder\<close>

text \<open>
  \<open>valueElem\<close> follows pointers and interfaces to the value behind them; \<open>None\<close> is the
  invalid \<open>reflect.Value\<close> a \<open>nil\<close> pointer or interface leads to.  The flag says whether
  the value is addressable (\<open>v.CanAddr()\<close>): what a pointer points to is, what an
  interface holds is not.
\<close>

fun valueElem :: "bool \<Rightarrow> val \<Rightarrow> (bool \<times> val) option" where
  "valueElem a (VPtr t None) = None"
| "valueElem a (VPtr t (Some p)) = valueElem True p"
| "valueElem a (VIface None) = None"
| "valueElem a (VIface (Some x)) = valueElem False x"
| "valueElem a v = Some (a, v)"

text \<open>
  \<open>emptyValue\<close>.  \<open>v.Float() == 0\<close> holds for the two zeros, whose bit patterns differ in
  the sign bit only.
\<close>

fun emptyValue :: "val \<Rightarrow> bool" where
  "emptyValue (VArray n t xs) = (length xs = 0)"
| "emptyValue (VMap n kt et m) = (len m = 0)"
| "emptyValue (VSlice n t xs) = (len xs = 0)"
| "emptyValue (VString n s) = (length s = 0)"
| "emptyValue (VBool n b) = (\<not> b)"
| "emptyValue (VInt n k i) = (i = 0)"
| "emptyValue (VUint n k u) = (u = 0)"
| "emptyValue (VFloat n KFloat32 x) = (x mod 2 ^ 31 = 0)"
| "emptyValue (VFloat n KFloat64 x) = (x mod 2 ^ 63 = 0)"
| "emptyValue (VIface xo) = (xo = None)"
| "emptyValue (VPtr t po) = (po = None)"
| "emptyValue v = False"

text \<open>
  \<open>tryMarshaler\<close>: a value of a named type that is addressable is looked at through its
  address, whose method set has the methods of both receivers; otherwise only a method
  declared on the value counts.  The encoder calls it on what \<open>valueElem\<close> returns, never
  on a pointer or an interface, and an unnamed type of the model has no methods.
  \<open>None\<close> is \<open>used = false\<close>.
\<close>

definition tryMarshaler :: "env \<Rightarrow> bool \<Rightarrow> val \<Rightarrow> (error + av) option" where
  "tryMarshaler env a v =
     (if tname v = [] then None
      else case Marshaler env (tname v) of
             None \<Rightarrow> None
           | Some (r, h) \<Rightarrow> if r = ByValue \<or> a then Some (h v) else None)"

text \<open>
  \<open>keepOrOmitEmpty\<close> takes the element's encoding and its error together, as the encoder
  returned them, and gives \<open>(skip, err)\<close>.
\<close>

definition keepOrOmitEmpty :: "bool \<Rightarrow> error + av \<Rightarrow> bool \<times> error option" where
  "keepOrOmitEmpty omitEmpty r =
     (case r of
        Inl err \<Rightarrow>
          (case err of
             unsupportedMarshalTypeError t \<Rightarrow> (True, None)
           | _ \<Rightarrow> (False, Some err))
      | Inr a \<Rightarrow> if NULL a \<noteq> None \<and> omitEmpty then (True, None) else (False, None))"

text \<open>\<open>av.M[k] = elem\<close> on the association list.\<close>

fun mapPut :: "'k \<Rightarrow> 'v \<Rightarrow> ('k \<times> 'v) list \<Rightarrow> ('k \<times> 'v) list" where
  "mapPut k x [] = [(k, x)]"
| "mapPut k x (p # ps) = (if fst p = k then (k, x) # ps else p # mapPut k x ps)"

definition encodeNumber :: "env \<Rightarrow> bool \<Rightarrow> val \<Rightarrow> error + av" where
  "encodeNumber env a v =
     (case tryMarshaler env a v of
        Some r \<Rightarrow> r
      | None \<Rightarrow>
          (case v of
             VInt n k i \<Rightarrow>
               if n = [] then Inr (setN (Some (encodeInt i)) emptyAV)
               else Inl (unsupportedMarshalTypeError (typeOf v))
           | VUint n k u \<Rightarrow>
               if n = [] \<and> k \<noteq> KUintptr then Inr (setN (Some (encodeUint u)) emptyAV)
               else Inl (unsupportedMarshalTypeError (typeOf v))
           | VFloat n k x \<Rightarrow>
               if n = [] then
                 Inr (setN (Some (encodeFloat env (case k of KFloat32 \<Rightarrow> toFloat64 env x | KFloat64 \<Rightarrow> x)))
                        emptyAV)
               else Inl (unsupportedMarshalTypeError (typeOf v))
           | _ \<Rightarrow> Inl (unsupportedMarshalTypeError (typeOf v))))"

definition encodeString :: "env \<Rightarrow> Encoder \<Rightarrow> bool \<Rightarrow> val \<Rightarrow> error + av" where
  "encodeString env e a v =
     (case tryMarshaler env a v of
        Some r \<Rightarrow> r
      | None \<Rightarrow>
          (case v of
             VString n s \<Rightarrow>
               if n = [] then
                 (if length s = 0 \<and> NullEmptyString e then Inr encodeNull
                  else Inr (setS (Some s) emptyAV))
               else Inl (unsupportedMarshalTypeError (typeOf v))
           | _ \<Rightarrow> Inl (unsupportedMarshalTypeError (typeOf v))))"

text \<open>
  \<open>encodeScalar\<close>: the type switch takes the unnamed \<open>bool\<close> and \<open>string\<close>; everything
  else, named booleans and strings included, falls to \<open>encodeNumber\<close>.
\<close>

definition encodeScalar :: "env \<Rightarrow> Encoder \<Rightarrow> bool \<Rightarrow> tag \<Rightarrow> val \<Rightarrow> error + av" where
  "encodeScalar env e a fieldTag v =
     (case v of
        VBool [] b \<Rightarrow> Inr (setBOOL (Some b) emptyAV)
      | VString [] s \<Rightarrow> encodeString env e a v
      | _ \<Rightarrow>
          (case encodeNumber env a v of
             Inl err \<Rightarrow> Inl err
           | Inr r \<Rightarrow>
               if AsString fieldTag \<and> NULL r = None \<and> N r \<noteq> None
               then Inr (setN None (setS (N r) r))
               else Inr r))"

text \<open>
  The four element functions of \<open>encodeSlice\<close>.  Each closes over the attribute value under
  construction and appends to one of its fields; here it takes that value and returns it.
\<close>

definition binElemFn :: "av \<Rightarrow> av \<Rightarrow> error + av" where
  "binElemFn elem a =
     (case B elem of
        None \<Rightarrow> Inl (InvalidMarshalError ''binary set must only contain non-nil byte slices'')
      | Some b \<Rightarrow> Inr (setBS (Some ((case BS a of None \<Rightarrow> [] | Some bs \<Rightarrow> bs) @ [b])) a))"

definition numElemFn :: "av \<Rightarrow> av \<Rightarrow> error + av" where
  "numElemFn elem a =
     (case N elem of
        None \<Rightarrow> Inl (InvalidMarshalError ''number set must only contain non-nil string numbers'')
      | Some n \<Rightarrow> Inr (setNS (Some ((case NS a of None \<Rightarrow> [] | Some ns \<Rightarrow> ns) @ [Some n])) a))"

definition strElemFn :: "av \<Rightarrow> av \<Rightarrow> error + av" where
  "strElemFn elem a =
     (case S elem of
        None \<Rightarrow> Inl (InvalidMarshalError ''string set must only contain non-nil strings'')
      | Some s \<Rightarrow> Inr (setSS (Some ((case SS a of None \<Rightarrow> [] | Some ss \<Rightarrow> ss) @ [Some s])) a))"

definition listElemFn :: "av \<Rightarrow> av \<Rightarrow> error + av" where
  "listElemFn elem a =
     Inr (setL (Some ((case L a of None \<Rightarrow> [] | Some l \<Rightarrow> l) @ [Some elem])) a)"

text \<open>The type switch \<open>case []byte\<close> and the test \<open>v.Type() == byteSliceSlicetype\<close>.\<close>

definition byteSliceType :: gtype where
  "byteSliceType = TSlice [] (TUint [] KUint8)"

definition byteSliceSlicetype :: gtype where
  "byteSliceSlicetype = TSlice [] byteSliceType"

fun byteOf :: "val \<Rightarrow> nat" where
  "byteOf (VUint n k u) = u"
| "byteOf v = 0"

text \<open>
  The choice \<open>encodeSlice\<close> makes between its four element functions, with the container
  each starts from (\<open>av.BS = make([][]byte, 0, v.Len())\<close> and so on).
\<close>

definition sliceKind :: "tag \<Rightarrow> gtype \<Rightarrow> (av \<Rightarrow> av \<Rightarrow> error + av) \<times> av" where
  "sliceKind fieldTag ty =
     (if AsBinSet fieldTag \<or> ty = byteSliceSlicetype then (binElemFn, setBS (Some []) emptyAV)
      else if AsNumSet fieldTag then (numElemFn, setNS (Some []) emptyAV)
      else if AsStrSet fieldTag then (strElemFn, setSS (Some []) emptyAV)
      else (listElemFn, setL (Some []) emptyAV))"

text \<open>\<open>fmt.Sprint(key.Interface())\<close>: a plain string is itself, anything else is the library's.\<close>

definition keyName :: "env \<Rightarrow> val \<Rightarrow> string" where
  "keyName env k = (case k of VString n s \<Rightarrow> if n = [] then s else Sprint env k | _ \<Rightarrow> Sprint env k)"

text \<open>
  \<open>encode\<close> and the functions it calls.  The attribute value the source fills is always a
  fresh one (\<open>&dynamodb.AttributeValue{}\<close> in \<open>Encode\<close>, \<open>encodeStruct\<close>, \<open>encodeMap\<close>
  and \<open>encodeList\<close>), so each function returns the value it has filled, or the error.

  The equations of \<open>encode\<close> on a pointer and an interface are \<open>v = valueElem(v)\<close>, with
  \<open>encodeNull\<close> for the invalid value; on every other value \<open>encodeGuard\<close> is the part
  of \<open>encode\<close> before the switch on the kind (the hook, then \<open>omitempty\<close>), and its last
  argument the branch the switch takes.
  \<open>encodeFields\<close> and \<open>encodeEntries\<close> are the loops of \<open>encodeStruct\<close> and \<open>encodeMap\<close>
  over the map built so far; \<open>encodeList\<close> passes on the container and the count.
  \<open>encodeStruct\<close> is given the fields of \<open>v\<close>, \<open>encodeMap\<close> its entries, and
  \<open>encodeSlice\<close> the type of \<open>v\<close>, its elements and whether they are addressable (those
  of a slice are, those of an array are when the array is).
\<close>

definition encodeGuard :: "env \<Rightarrow> bool \<Rightarrow> tag \<Rightarrow> val \<Rightarrow> error + av \<Rightarrow> error + av" where
  "encodeGuard env a fieldTag v k =
     (case tryMarshaler env a v of
        Some r \<Rightarrow> r
      | None \<Rightarrow> if OmitEmpty fieldTag \<and> emptyValue v then Inr encodeNull else k)"

lemma size_fields_eq:
  "size_list (size_prod (\<lambda>x. 0) size) fs = size_list (\<lambda>x. Suc (size (snd x))) (fs :: (field \<times> val) list)"
  by (induction fs) (auto simp: size_prod_simp)

lemma size_entries_eq:
  "size_list (size_prod size size) kvs
     = size_list (\<lambda>x. Suc (size (fst x) + size (snd x))) (kvs :: (val \<times> val) list)"
  by (induction kvs) (auto simp: size_prod_simp)

function (sequential) encode :: "env \<Rightarrow> Encoder \<Rightarrow> bool \<Rightarrow> tag \<Rightarrow> val \<Rightarrow> error + av"
  and encodeStruct :: "env \<Rightarrow> Encoder \<Rightarrow> bool \<Rightarrow> (field \<times> val) list \<Rightarrow> error + av"
  and encodeFields :: "env \<Rightarrow> Encoder \<Rightarrow> bool \<Rightarrow> (field \<times> val) list
        \<Rightarrow> (string \<times> av option) list \<Rightarrow> error + (string \<times> av option) list"
  and encodeMap :: "env \<Rightarrow> Encoder \<Rightarrow> tag \<Rightarrow> (val \<times> val) list \<Rightarrow> error + av"
  and encodeEntries :: "env \<Rightarrow> Encoder \<Rightarrow> tag \<Rightarrow> (val \<times> val) list
        \<Rightarrow> (string \<times> av option) list \<Rightarrow> error + (string \<times> av option) list"
  and encodeSlice :: "env \<Rightarrow> Encoder \<Rightarrow> bool \<Rightarrow> tag \<Rightarrow> gtype \<Rightarrow> val list \<Rightarrow> error + av"
  and encodeList :: "env \<Rightarrow> Encoder \<Rightarrow> bool \<Rightarrow> tag \<Rightarrow> (av \<Rightarrow> av \<Rightarrow> error + av)
        \<Rightarrow> val list \<Rightarrow> av \<Rightarrow> nat \<Rightarrow> error + av \<times> nat"
where
  "encode env e a fieldTag (VPtr t None) = Inr encodeNull"
| "encode env e a fieldTag (VPtr t (Some p)) = encode env e True fieldTag p"
| "encode env e a fieldTag (VIface None) = Inr encodeNull"
| "encode env e a fieldTag (VIface (Some x)) = encode env e False fieldTag x"
| "encode env e a fieldTag (VStruct n fs) =
     encodeGuard env a fieldTag (VStruct n fs) (encodeStruct env e a fs)"
| "encode env e a fieldTag (VMap n kt et None) =
     encodeGuard env a fieldTag (VMap n kt et None) (encodeMap env e fieldTag [])"
| "encode env e a fieldTag (VMap n kt et (Some kvs)) =
     encodeGuard env a fieldTag (VMap n kt et (Some kvs)) (encodeMap env e fieldTag kvs)"
| "encode env e a fieldTag (VSlice n t None) =
     encodeGuard env a fieldTag (VSlice n t None) (encodeSlice env e True fieldTag (TSlice n t) [])"
| "encode env e a fieldTag (VSlice n t (Some xs)) =
     encodeGuard env a fieldTag (VSlice n t (Some xs)) (encodeSlice env e True fieldTag (TSlice n t) xs)"
| "encode env e a fieldTag (VArray n t xs) =
     encodeGuard env a fieldTag (VArray n t xs)
       (encodeSlice env e a fieldTag (TArray n (length xs) t) xs)"
| "encode env e a fieldTag (VOpaque n k x) =
     encodeGuard env a fieldTag (VOpaque n k x) (Inr emptyAV)"
| "encode env e a fieldTag (VBool n b) =
     encodeGuard env a fieldTag (VBool n b) (encodeScalar env e a fieldTag (VBool n b))"
| "encode env e a fieldTag (VString n s) =
     encodeGuard env a fieldTag (VString n s) (encodeScalar env e a fieldTag (VString n s))"
| "encode env e a fieldTag (VInt n k i) =
     encodeGuard env a fieldTag (VInt n k i) (encodeScalar env e a fieldTag (VInt n k i))"
| "encode env e a fieldTag (VUint n k u) =
     encodeGuard env a fieldTag (VUint n k u) (encodeScalar env e a fieldTag (VUint n k u))"
| "encode env e a fieldTag (VFloat n k x) =
     encodeGuard env a fieldTag (VFloat n k x) (encodeScalar env e a fieldTag (VFloat n k x))"
| "encode env e a fieldTag (VComplex n k x) =
     encodeGuard env a fieldTag (VComplex n k x) (encodeScalar env e a fieldTag (VComplex n k x))"
| "encodeStruct env e a fs =
     (case encodeFields env e a fs [] of
        Inl err \<Rightarrow> Inl err
      | Inr m \<Rightarrow> if length m = 0 then Inr encodeNull else Inr (setM (Some m) emptyAV))"
| "encodeFields env e a [] m = Inr m"
| "encodeFields env e a (fv # fs) m =
     (if Name (fst fv) = [] then Inl (InvalidMarshalError ''map key cannot be empty'')
      else
        (let r = encode env e a (tagOf (fst fv)) (snd fv);
             k = keepOrOmitEmpty (OmitEmpty (fst fv)) r
         in case snd k of
              Some err \<Rightarrow> Inl err
            | None \<Rightarrow>
                if fst k then encodeFields env e a fs m
                else (case r of
                        Inr elem \<Rightarrow> encodeFields env e a fs (mapPut (Name (fst fv)) (Some elem) m)
                      | Inl err \<Rightarrow> Inl err)))"
| "encodeMap env e fieldTag kvs =
     (case encodeEntries env e fieldTag kvs [] of
        Inl err \<Rightarrow> Inl err
      | Inr m \<Rightarrow> if length m = 0 then Inr encodeNull else Inr (setM (Some m) emptyAV))"
| "encodeEntries env e fieldTag [] m = Inr m"
| "encodeEntries env e fieldTag (kv # kvs) m =
     (if keyName env (fst kv) = [] then Inl (InvalidMarshalError ''map key cannot be empty'')
      else
        (let r = encode env e False tag0 (snd kv);
             k = keepOrOmitEmpty (OmitEmptyElem fieldTag) r
         in case snd k of
              Some err \<Rightarrow> Inl err
            | None \<Rightarrow>
                if fst k then encodeEntries env e fieldTag kvs m
                else (case r of
                        Inr elem \<Rightarrow>
                          encodeEntries env e fieldTag kvs (mapPut (keyName env (fst kv)) (Some elem) m)
                      | Inl err \<Rightarrow> Inl err)))"
| "encodeSlice env e a fieldTag ty xs =
     (if ty = byteSliceType then
        (if length xs = 0 then Inr encodeNull else Inr (setB (Some (map byteOf xs)) emptyAV))
      else
        (case encodeList env e a fieldTag (fst (sliceKind fieldTag ty)) xs
                (snd (sliceKind fieldTag ty)) 0 of
           Inl err \<Rightarrow> Inl err
         | Inr rc \<Rightarrow> if snd rc = 0 then Inr encodeNull else Inr (fst rc)))"
| "encodeList env e a fieldTag elemFn [] acc cnt = Inr (acc, cnt)"
| "encodeList env e a fieldTag elemFn (x # xs) acc cnt =
     (let r = encode env e a (tag0\<lparr>OmitEmpty := OmitEmptyElem fieldTag\<rparr>) x;
          k = keepOrOmitEmpty (OmitEmptyElem fieldTag) r
      in case snd k of
           Some err \<Rightarrow> Inl err
         | None \<Rightarrow>
             if fst k then encodeList env e a fieldTag elemFn xs acc cnt
             else (case r of
                     Inr elem \<Rightarrow>
                       (case elemFn elem acc of
                          Inl err \<Rightarrow> Inl err
                        | Inr acc' \<Rightarrow> encodeList env e a fieldTag elemFn xs acc' (cnt + 1))
                   | Inl err \<Rightarrow> Inl err))"

  by pat_completeness auto
termination
  by (relation "measure (\<lambda>x. case x of
        Inl (Inl (env, e, a, t, v)) \<Rightarrow> 2 * size v
      | Inl (Inr (Inl (env, e, a, fs))) \<Rightarrow> 2 * size_list (\<lambda>x. Suc (size (snd x))) fs + 1
      | Inl (Inr (Inr (env, e, a, fs, m))) \<Rightarrow> 2 * size_list (\<lambda>x. Suc (size (snd x))) fs
      | Inr (Inl (Inl (env, e, t, kvs))) \<Rightarrow> 2 * size_list (\<lambda>x. Suc (size (fst x) + size (snd x))) kvs + 1
      | Inr (Inl (Inr (env, e, t, kvs, m))) \<Rightarrow> 2 * size_list (\<lambda>x. Suc (size (fst x) + size (snd x))) kvs
      | Inr (Inr (Inl (env, e, a, t, ty, xs))) \<Rightarrow> 2 * size_list size xs + 1
      | Inr (Inr (Inr (env, e, a, t, f, xs, acc, cnt))) \<Rightarrow> 2 * size_list size xs)")
    (auto simp: size_fields_eq size_entries_eq)
text \<open>
  \<open>Encode\<close>.  \<open>reflect.ValueOf(in)\<close> is the invalid value for a \<open>nil\<close> interface (\<open>None\<close>)
  and a value that is not addressable otherwise.
\<close>

definition Encode :: "env \<Rightarrow> Encoder \<Rightarrow> val option \<Rightarrow> error + av" where
  "Encode env e inp = (case inp of None \<Rightarrow> Inr encodeNull | Some v \<Rightarrow> encode env e False tag0 v)"

section \<open>An environment for the examples\<close>

text \<open>
  No type has a hook; the float parser knows the literal \<open>123.5\<close>, whose float64 bit
  pattern is \<open>0x405EE00000000000\<close>, and refuses every other string.
\<close>

definition exampleEnv :: env where
  "exampleEnv =
     \<lparr>ParseFloat = (\<lambda>s. if s = ''123.5'' then Inr 0x405EE00000000000 else Inl ErrSyntax),
      FormatFloat = (\<lambda>f. if f = 0x405EE00000000000 then ''123.5'' else ''0''),
      toFloat32 = (\<lambda>f. f),
      toFloat64 = (\<lambda>f. f),
      Sprint = (\<lambda>v. ''key''),
      Marshaler = (\<lambda>n. None),
      Unmarshaler = (\<lambda>n. None)\<rparr>"

section \<open>Properties\<close>

subsection \<open>Evaluation of the parsers\<close>

lemmas strconv_defs = ParseInt_def ParseUint_def isDigit_def digitVal_def

lemma ParseUint_300: "ParseUint ''300'' = Inr 300"
  by (simp add: strconv_defs)

lemma ParseInt_123: "ParseInt ''123'' = Inr 123"
  by (simp add: strconv_defs)

lemma ParseInt_max_uint: "ParseInt ''18446744073709551615'' = Inl ErrRange"
  by (simp add: strconv_defs)

lemma ParseUint_max_uint: "ParseUint ''18446744073709551615'' = Inr 18446744073709551615"
  by (simp add: strconv_defs)

lemma ParseInt_123_5: "ParseInt ''123.5'' = Inl ErrSyntax"
  by (simp add: strconv_defs)

lemma ParseUint_123_5: "ParseUint ''123.5'' = Inl ErrSyntax"
  by (simp add: strconv_defs)

subsection \<open>Overflow of a numeric target\<close>

text \<open>
  C2.  The claim: a wire number beyond the range of the numeric target makes the decoder
  fail with an overflow error.  The code: \<open>decodeNumber\<close> parses \<open>300\<close> with
  \<open>strconv.ParseUint\<close>, which succeeds, finds \<open>v.OverflowUint(300)\<close> for the 8-bit target
  and returns \<open>err\<close>, which is \<open>nil\<close>: no error is reported and the target keeps the value
  it had.
\<close>

theorem decodeNumber_overflow_no_error:
  "decodeNumber env (Some ''300'') (VUint [] KUint8 old) = (None, VUint [] KUint8 old)"
  by (simp add: decodeNumber_def ParseUint_300 OverflowUint_def)

subsection \<open>A number into an any-type target\<close>

text \<open>
  C3.  For a wire number decoded into an interface target the signed 64-bit parse is tried
  first, then the unsigned one, then the float parse, and the first that succeeds gives
  the native type: \<open>123\<close> gives a signed integer, \<open>18446744073709551615\<close> an unsigned one,
  and \<open>123.5\<close> the float the library's parser returns for it.
\<close>

theorem decodeNumberToInterface_order:
  "(\<forall>i. ParseInt n = Inr i \<longrightarrow>
        decodeNumber env (Some n) (VIface old) = (None, VIface (Some (VInt [] KInt i))))
   \<and> (\<forall>e u. ParseInt n = Inl e \<longrightarrow> ParseUint n = Inr u \<longrightarrow>
        decodeNumber env (Some n) (VIface old) = (None, VIface (Some (VUint [] KUint u))))
   \<and> (\<forall>e e' f. ParseInt n = Inl e \<longrightarrow> ParseUint n = Inl e' \<longrightarrow> ParseFloat env n = Inr f \<longrightarrow>
        decodeNumber env (Some n) (VIface old) = (None, VIface (Some (VFloat [] KFloat64 f))))
   \<and> decodeNumberToInterface env ''123'' = Inr (VInt [] KInt 123)
   \<and> decodeNumberToInterface env ''18446744073709551615'' = Inr (VUint [] KUint 18446744073709551615)
   \<and> (\<forall>f. ParseFloat env ''123.5'' = Inr f \<longrightarrow>
        decodeNumberToInterface env ''123.5'' = Inr (VFloat [] KFloat64 f))"
  by (simp add: decodeNumber_def decodeNumberToInterface_def ParseInt_123 ParseInt_max_uint
      ParseUint_max_uint ParseInt_123_5 ParseUint_123_5)

theorem decodeNumberToInterface_order_witness:
  "decodeNumber exampleEnv (Some ''123'') (VIface None) = (None, VIface (Some (VInt [] KInt 123)))
   \<and> decodeNumber exampleEnv (Some ''18446744073709551615'') (VIface None)
       = (None, VIface (Some (VUint [] KUint 18446744073709551615)))
   \<and> decodeNumber exampleEnv (Some ''123.5'') (VIface None)
       = (None, VIface (Some (VFloat [] KFloat64 0x405EE00000000000)))
   \<and> decodeNumberToInterface exampleEnv ''123.5'' = Inr (VFloat [] KFloat64 0x405EE00000000000)"
  using decodeNumberToInterface_order [of "''123''" exampleEnv None]
    decodeNumberToInterface_order [of "''18446744073709551615''" exampleEnv None]
    decodeNumberToInterface_order [of "''123.5''" exampleEnv None]
  by (simp add: ParseInt_123 ParseInt_max_uint ParseUint_max_uint ParseInt_123_5 ParseUint_123_5
      exampleEnv_def)

end
